theory Spec2Isabelle
  imports Main "HOL-Library.AList"
begin

section \<open>Sagas as generators\<close>

text \<open>
  A saga is a generator function: it yields an effect description, is resumed with the
  effect's result, and eventually returns. A generator is modelled as the tree of its
  yields; \<open>run\<close> drives it against an environment that answers each effect and records
  the effects in the order in which they were yielded.
\<close>

datatype ('e, 'r) gen = Done | Yield 'e "'r \<Rightarrow> ('e, 'r) gen"

primrec run :: "('e \<Rightarrow> 'r) \<Rightarrow> ('e, 'r) gen \<Rightarrow> 'e list" where
  "run env Done = []"
| "run env (Yield e k) = e # run env (k (env e))"

section \<open>Persistence slice: rehydration saga\<close>

text \<open>
  The action creators \<open>trackInit\<close>, \<open>fetchAssets\<close>, \<open>fetchMemberships\<close>,
  \<open>startRatesPolling\<close>, \<open>fetchHistory\<close>, \<open>startTxPolling\<close> and \<open>fetchENS\<close> are imported
  from other slices; each is called without arguments, so the action it builds is a constant.
\<close>

datatype init_action =
  trackInit | fetchAssets | fetchMemberships | startRatesPolling
  | fetchHistory | startTxPolling | fetchENS

datatype ('a, 'c) saga_effect = Put 'a | Call 'c

text \<open>\<open>interface IRehydrate { key; type }\<close>\<close>

record IRehydrate =
  rehydrate_key :: string
  rehydrate_type :: string

text \<open>\<open>APP_PERSIST_CONFIG\<close> is imported from \<open>persist.config\<close>; only its \<open>key\<close> is read.\<close>

record persist_config =
  config_key :: string

definition handleRehydrateSuccess ::
  "persist_config \<Rightarrow> IRehydrate \<Rightarrow> ((init_action, 'c) saga_effect, unit) gen" where
  "handleRehydrateSuccess APP_PERSIST_CONFIG action =
     (if rehydrate_key action = config_key APP_PERSIST_CONFIG then
        Yield (Put trackInit) (\<lambda>_.
        Yield (Put fetchAssets) (\<lambda>_.
        Yield (Put fetchMemberships) (\<lambda>_.
        Yield (Put startRatesPolling) (\<lambda>_.
        Yield (Put fetchHistory) (\<lambda>_.
        Yield (Put startTxPolling) (\<lambda>_.
        Yield (Put fetchENS) (\<lambda>_. Done)))))))
      else Done)"

section \<open>Persistence slice: schema and reducer\<close>

text \<open>
  A JavaScript object is the list of its properties in insertion order. An object
  literal adds its properties one by one; writing a key that is already there replaces
  the value and keeps the key's place.
\<close>

definition object_literal :: "('k \<times> 'v) list \<Rightarrow> ('k \<times> 'v) list" where
  "object_literal props = foldl (\<lambda>obj (k, v). AList.update k v obj) [] props"

definition Object_keys :: "('k \<times> 'v) list \<Rightarrow> 'k list" where
  "Object_keys obj = map fst obj"

text \<open>The members of \<open>enum LSKeys\<close> that \<open>SCHEMA_BASE\<close> uses as computed keys.\<close>

datatype LSKeys =
  ACCOUNTS | ADDRESS_BOOK | ASSETS | RATES | TRACKED_ASSETS | CONTRACTS
  | NETWORKS | NOTIFICATIONS | SETTINGS | NETWORK_NODES | USER_ACTIONS

text \<open>
  Modelled from the spec: the string value of each member of \<open>enum LSKeys\<close>, which is
  declared in \<open>@types\<close> and not among the sources. The values are the names the spec gives
  the sub-states of the persisted state (accounts, assets, rates, trackedAssets,
  addressBook, contracts, networks, notifications, settings, userActions); the member
  \<open>NETWORK_NODES\<close>, which the spec does not list, has its own name in the same spelling.
\<close>

fun LSKeys_value :: "LSKeys \<Rightarrow> string" where
  "LSKeys_value ACCOUNTS = ''accounts''"
| "LSKeys_value ADDRESS_BOOK = ''addressBook''"
| "LSKeys_value ASSETS = ''assets''"
| "LSKeys_value RATES = ''rates''"
| "LSKeys_value TRACKED_ASSETS = ''trackedAssets''"
| "LSKeys_value CONTRACTS = ''contracts''"
| "LSKeys_value NETWORKS = ''networks''"
| "LSKeys_value NOTIFICATIONS = ''notifications''"
| "LSKeys_value SETTINGS = ''settings''"
| "LSKeys_value NETWORK_NODES = ''networkNodes''"
| "LSKeys_value USER_ACTIONS = ''userActions''"

text \<open>
  The values stored in \<open>SCHEMA_BASE\<close>: a string, a number, the empty object \<open>{}\<close>, and the
  imported \<open>defaultContacts\<close> and \<open>defaultSettings\<close>.
\<close>

datatype schema_value = Str string | Num int | EmptyObject | defaultContacts | defaultSettings

text \<open>
  \<open>mtime\<close> is \<open>new Date('01/01/2020').valueOf()\<close>, a number that depends on the local time
  zone; it is the parameter \<open>mtime_2020\<close>.
\<close>

definition SCHEMA_BASE :: "int \<Rightarrow> (string \<times> schema_value) list" where
  "SCHEMA_BASE mtime_2020 = object_literal
     [(''version'', Str ''v2.0.0''),
      (''mtime'', Num mtime_2020),
      (LSKeys_value ACCOUNTS, EmptyObject),
      (LSKeys_value ADDRESS_BOOK, defaultContacts),
      (LSKeys_value ASSETS, EmptyObject),
      (LSKeys_value RATES, EmptyObject),
      (LSKeys_value TRACKED_ASSETS, EmptyObject),
      (LSKeys_value CONTRACTS, EmptyObject),
      (LSKeys_value NETWORKS, EmptyObject),
      (LSKeys_value NOTIFICATIONS, EmptyObject),
      (LSKeys_value SETTINGS, defaultSettings),
      (LSKeys_value NETWORK_NODES, EmptyObject),
      (LSKeys_value USER_ACTIONS, EmptyObject)]"

text \<open>
  A reducer takes the previous sub-state (\<open>undefined\<close> before the first action) and an
  action. \<open>combineReducers\<close> of Redux builds, from an object of reducers, the reducer whose
  next state has under each key of that object what the key's reducer returns for the
  previous state's value under the same key.
\<close>

type_synonym ('v, 'a) reducer = "'v option \<Rightarrow> 'a \<Rightarrow> 'v"

definition combineReducers ::
  "(string \<times> ('v, 'a) reducer) list \<Rightarrow> (string \<rightharpoonup> 'v) \<Rightarrow> 'a \<Rightarrow> (string \<rightharpoonup> 'v)" where
  "combineReducers reducers state action =
     (\<lambda>key. map_option (\<lambda>reducer. reducer (state key) action) (map_of reducers key))"

text \<open>The slices imported by the persistence slice.\<close>

datatype imported_slice =
  accountSlice | assetSlice | ratesSlice | trackedAssetsSlice | contactSlice
  | contractSlice | networkSlice | notificationSlice | settingsSlice | userActionSlice

text \<open>
  Modelled from the spec: the \<open>name\<close> of each imported slice, set in the slice's own file,
  which is not among the sources. The names are the sub-states the spec lists; the contact
  slice is the one named addressBook.
\<close>

fun slice_name :: "imported_slice \<Rightarrow> string" where
  "slice_name accountSlice = LSKeys_value ACCOUNTS"
| "slice_name assetSlice = LSKeys_value ASSETS"
| "slice_name ratesSlice = LSKeys_value RATES"
| "slice_name trackedAssetsSlice = LSKeys_value TRACKED_ASSETS"
| "slice_name contactSlice = LSKeys_value ADDRESS_BOOK"
| "slice_name contractSlice = LSKeys_value CONTRACTS"
| "slice_name networkSlice = LSKeys_value NETWORKS"
| "slice_name notificationSlice = LSKeys_value NOTIFICATIONS"
| "slice_name settingsSlice = LSKeys_value SETTINGS"
| "slice_name userActionSlice = LSKeys_value USER_ACTIONS"

text \<open>
  The reducers of the imported slices (\<open>slice_reducer\<close>) and \<open>initialLegacyState.version\<close>
  (\<open>initial_version\<close>) are parameters.
\<close>

definition persistenceReducer ::
  "(imported_slice \<Rightarrow> ('v, 'a) reducer) \<Rightarrow> 'v \<Rightarrow> (string \<rightharpoonup> 'v) \<Rightarrow> 'a \<Rightarrow> (string \<rightharpoonup> 'v)" where
  "persistenceReducer slice_reducer initial_version =
     combineReducers (object_literal
       [(''version'', \<lambda>_ _. initial_version),
        (slice_name accountSlice, slice_reducer accountSlice),
        (slice_name assetSlice, slice_reducer assetSlice),
        (slice_name ratesSlice, slice_reducer ratesSlice),
        (slice_name trackedAssetsSlice, slice_reducer trackedAssetsSlice),
        (slice_name contactSlice, slice_reducer contactSlice),
        (slice_name contractSlice, slice_reducer contractSlice),
        (slice_name networkSlice, slice_reducer networkSlice),
        (slice_name notificationSlice, slice_reducer notificationSlice),
        (slice_name settingsSlice, slice_reducer settingsSlice),
        (slice_name userActionSlice, slice_reducer userActionSlice)])"

text \<open>The default export: \<open>{ reducer: persistenceReducer, name: 'database' }\<close>.\<close>

definition persistence_slice_name :: string where
  "persistence_slice_name = ''database''"

section \<open>Store provider: data\<close>

text \<open>
  Record fields carry a short prefix naming their record, because several of the source's
  types share field names (\<open>uuid\<close>, \<open>address\<close>, \<open>assets\<close>, \<open>mtime\<close>).
\<close>

type_synonym TUuid = string
type_synonym TAddress = string
type_synonym NetworkId = string

text \<open>
  \<open>enum WalletId\<close> is declared in \<open>@types\<close>. The members the sources name are kept as
  constructors; every other member is \<open>OtherWallet\<close> with its name.
\<close>

datatype WalletId = WEB3 | LEDGER_NANO_S_NEW | OtherWallet string

typedecl ITxReceipt

text \<open>The entries of a raw account's \<open>assets\<close>: \<open>{ uuid, balance, mtime }\<close>.\<close>

record AssetBalanceObject =
  bal_uuid :: TUuid
  bal_balance :: string
  bal_mtime :: int

text \<open>
  \<open>IAccount\<close>, with the fields \<open>addMultipleAccounts\<close> writes. \<open>wallet\<close> is an option: the
  source computes it from \<open>accountType!\<close>, and a non-null assertion does nothing at run time.
\<close>

record IAccount =
  acc_address :: TAddress
  acc_networkId :: NetworkId
  acc_wallet :: "WalletId option"
  acc_dPath :: string
  acc_assets :: "AssetBalanceObject list"
  acc_transactions :: "ITxReceipt list"
  acc_favorite :: bool
  acc_mtime :: int
  acc_uuid :: TUuid

text \<open>\<open>interface IAddAccount { address; dPath }\<close>\<close>

record IAddAccount =
  add_address :: TAddress
  add_dPath :: string

text \<open>
  A contact of the address book. \<open>label\<close> is an option because the source stores
  \<open>newLabels[idx]\<close>, which is \<open>undefined\<close> (here \<open>None\<close>) when the index is out of range.
\<close>

record Contact =
  contact_label :: "string option"
  contact_address :: TAddress
  contact_notes :: string
  contact_network :: NetworkId
  contact_uuid :: TUuid

record Network =
  network_id :: NetworkId

record Asset =
  asset_uuid :: TUuid

text \<open>A \<open>StoreAccount\<close> as far as the provider reads it: its \<open>assets\<close>, a list of \<open>StoreAsset\<close>.\<close>

record 'sa StoreAccount =
  sa_uuid :: TUuid
  sa_assets :: "'sa list"

text \<open>Reading a JavaScript array: \<open>xs[i]\<close> is \<open>undefined\<close> out of range.\<close>

definition array_get :: "'a list \<Rightarrow> nat \<Rightarrow> 'a option" where
  "array_get xs i = (if i < length xs then Some (xs ! i) else None)"

text \<open>
  Redux actions dispatched by the provider, and the calls it makes on the functions the
  hooks \<open>useAccounts\<close>, \<open>useSettings\<close> and \<open>useContacts\<close> hand out. Those functions live in
  other files; a call is recorded, with its argument, in the order it is made.
\<close>

datatype store_action =
  deleteMembership TAddress NetworkId
  | addAccounts "IAccount list"

datatype effect =
  DeleteAccount IAccount
  | UpdateSettingsAccounts "TUuid list"
  | Dispatch store_action
  | UpdateContact Contact
  | CreateContact Contact
  | CreateMultipleAccountsWithIDs "IAccount list"

text \<open>
  What a render of \<open>StoreProvider\<close> closes over: the values read from the hooks, the
  \<open>accountRestore\<close> cache held by \<open>useState\<close>, and the calls made so far. The cache is a
  JavaScript object whose values are \<open>IAccount | undefined\<close>: a key can be absent (\<open>None\<close>)
  or present with the value \<open>undefined\<close> (\<open>Some None\<close>). Each call of a function of
  the provider is taken to run in a render that has seen the cache as the previous call
  left it.
\<close>

record 'sa Store =
  accounts :: "'sa StoreAccount list"
  networks :: "Network list"
  assetsStore :: "Asset list"
  contacts :: "Contact list"
  dashboardAccounts :: "TUuid list"
  accountRestore :: "TUuid \<Rightarrow> IAccount option option"
  effects :: "effect list"

text \<open>
  The helpers imported from other modules, taken as parameters. \<open>web3WalletId\<close> is the value
  of \<open>WalletId[getWeb3Config().id]\<close>. \<open>Date_now\<close> and \<open>generateUUID\<close> are not functions of
  their arguments; each is given the index of the account for which it is called, so that
  every call may return a value of its own.
\<close>

record hooks =
  getNetworkById :: "NetworkId \<Rightarrow> Network list \<Rightarrow> Network option"
  getAccountByAddressAndNetworkName :: "TAddress \<Rightarrow> NetworkId \<Rightarrow> IAccount option"
  web3WalletId :: "WalletId option"
  getNewDefaultAssetTemplateByNetwork :: "Asset list \<Rightarrow> Network \<Rightarrow> Asset"
  Date_now :: "nat \<Rightarrow> int"
  generateDeterministicAddressUUID :: "NetworkId \<Rightarrow> TAddress \<Rightarrow> TUuid"
  findMultipleNextUnusedDefaultLabels :: "WalletId option \<Rightarrow> nat \<Rightarrow> Contact list \<Rightarrow> string list"
  getContactByAddressAndNetworkId :: "TAddress \<Rightarrow> NetworkId \<Rightarrow> Contact option"
  translateRaw :: "string \<Rightarrow> string"
  generateUUID :: "nat \<Rightarrow> TUuid"

text \<open>A call either returns a value or throws an \<open>Error\<close> with a message.\<close>

datatype 'a outcome = Returned 'a | Threw string

section \<open>Store provider: totals\<close>

text \<open>
  \<open>getTotalByAsset\<close> returns an object keyed by asset uuid, here the list of its entries in
  property order; \<open>Object.values\<close> lists the values in that order. \<open>convertToFiatFromAsset\<close>,
  \<open>bigify\<close> and the \<open>plus\<close> of the big-number library are parameters as well.
\<close>

record ('sa, 'rate, 'c, 'big) fiat_ops =
  getTotalByAsset :: "'sa list \<Rightarrow> (TUuid \<times> 'sa) list"
  convertToFiatFromAsset :: "'sa \<Rightarrow> 'rate option \<Rightarrow> 'c"
  bigify :: "'c \<Rightarrow> 'big"
  bigify_0 :: "'big"
  big_plus :: "'big \<Rightarrow> 'big \<Rightarrow> 'big"

definition Object_values :: "('k \<times> 'v) list \<Rightarrow> 'v list" where
  "Object_values obj = map snd obj"

text \<open>A parameter with a default value: the default is taken when the argument is absent.\<close>

definition or_default :: "'a option \<Rightarrow> 'a \<Rightarrow> 'a" where
  "or_default arg d = (case arg of None \<Rightarrow> d | Some v \<Rightarrow> v)"

definition assets :: "'sa Store \<Rightarrow> 'sa StoreAccount list option \<Rightarrow> 'sa list" where
  "assets state selectedAccounts =
     concat (map (\<lambda>account. sa_assets account) (or_default selectedAccounts (accounts state)))"

definition totals ::
  "('sa, 'rate, 'c, 'big) fiat_ops \<Rightarrow> 'sa Store \<Rightarrow> 'sa StoreAccount list option \<Rightarrow> 'sa list" where
  "totals ops state selectedAccounts =
     Object_values (getTotalByAsset ops
       (assets state (Some (or_default selectedAccounts (accounts state)))))"

definition totalFiat ::
  "('sa, 'rate, 'c, 'big) fiat_ops \<Rightarrow> 'sa Store \<Rightarrow> 'sa StoreAccount list option
     \<Rightarrow> ('sa \<Rightarrow> 'rate option) \<Rightarrow> 'big" where
  "totalFiat ops state selectedAccounts getAssetRate =
     foldl (\<lambda>sum asset. big_plus ops sum (bigify ops (convertToFiatFromAsset ops asset (getAssetRate asset))))
       (bigify_0 ops)
       (totals ops state (Some (or_default selectedAccounts (accounts state))))"

section \<open>Store provider: the restore cache\<close>

text \<open>
  \<open>isEmpty\<close> (lodash) on a value of type \<open>IAccount | undefined\<close>: \<open>undefined\<close> is empty, and
  an account object, which always has own properties, is not.
\<close>

definition isEmpty :: "IAccount option \<Rightarrow> bool" where
  "isEmpty account = (account = None)"

text \<open>Reading \<open>obj[key]\<close>: an absent key reads as \<open>undefined\<close>.\<close>

definition obj_get :: "('k \<Rightarrow> 'v option option) \<Rightarrow> 'k \<Rightarrow> 'v option" where
  "obj_get obj k = (case obj k of None \<Rightarrow> None | Some v \<Rightarrow> v)"

definition deleteAccountFromCache :: "'sa Store \<Rightarrow> IAccount \<Rightarrow> 'sa Store" where
  "deleteAccountFromCache state account =
     state\<lparr>accountRestore := (accountRestore state)(acc_uuid account \<mapsto> Some account),
           effects := effects state @
             [DeleteAccount account,
              UpdateSettingsAccounts
                (filter (\<lambda>dashboardUUID. dashboardUUID \<noteq> acc_uuid account) (dashboardAccounts state)),
              Dispatch (deleteMembership (acc_address account) (acc_networkId account))]\<rparr>"

definition restoreDeletedAccount :: "'sa Store \<Rightarrow> TUuid \<Rightarrow> unit outcome \<times> 'sa Store" where
  "restoreDeletedAccount state accountId =
     (let account = obj_get (accountRestore state) accountId in
      if isEmpty account then
        (Threw ''Unable to restore account! No account with id specified.'', state)
      else
        (Returned (),
         state\<lparr>effects := effects state @ [Dispatch (addAccounts [the account])],
               accountRestore := (accountRestore state)(acc_uuid (the account) \<mapsto> None)\<rparr>))"

text \<open>
  The states of the provider: the cache starts as \<open>{}\<close> and is written only by the two
  functions above; a new render may bring any other values from the hooks.
\<close>

inductive reachable :: "'sa Store \<Rightarrow> bool" where
  initial: "accountRestore state = Map.empty \<Longrightarrow> reachable state"
| deleted: "reachable state \<Longrightarrow> reachable (deleteAccountFromCache state account)"
| restored: "reachable state \<Longrightarrow> reachable (snd (restoreDeletedAccount state accountId))"
| rendered: "reachable state \<Longrightarrow> accountRestore state' = accountRestore state \<Longrightarrow> reachable state'"

section \<open>Store provider: adding accounts\<close>

text \<open>The callback of \<open>newRawAccounts.forEach\<close>, given the element and its index.\<close>

definition labelContact ::
  "hooks \<Rightarrow> NetworkId \<Rightarrow> string list \<Rightarrow> 'sa Store \<Rightarrow> nat \<times> IAccount \<Rightarrow> 'sa Store" where
  "labelContact h networkId newLabels state p =
     (let idx = fst p; rawAccount = snd p;
          existingContact = getContactByAddressAndNetworkId h (acc_address rawAccount) networkId
      in case existingContact of
           Some c \<Rightarrow>
             if contact_label c = Some (translateRaw h ''NO_LABEL'') then
               state\<lparr>effects := effects state @
                 [UpdateContact (c\<lparr>contact_label := array_get newLabels idx\<rparr>)]\<rparr>
             else state
         | None \<Rightarrow>
             state\<lparr>effects := effects state @
               [CreateContact
                  \<lparr>contact_label = array_get newLabels idx,
                   contact_address = acc_address rawAccount,
                   contact_notes = '''',
                   contact_network = acc_networkId rawAccount,
                   contact_uuid = generateUUID h idx\<rparr>]\<rparr>)"

definition addMultipleAccounts ::
  "hooks \<Rightarrow> 'sa Store \<Rightarrow> NetworkId \<Rightarrow> WalletId option \<Rightarrow> IAddAccount list
     \<Rightarrow> IAccount list option \<times> 'sa Store" where
  "addMultipleAccounts h state networkId accountType newAccounts =
     (case getNetworkById h networkId (networks state) of
        None \<Rightarrow> (None, state)
      | Some network \<Rightarrow>
          if length newAccounts = 0 then (None, state)
          else
            let accountsToAdd =
                  filter (\<lambda>a. getAccountByAddressAndNetworkName h (add_address a) networkId = None)
                    newAccounts;
                walletType = (if accountType = Some WEB3 then web3WalletId h else accountType);
                newAsset = getNewDefaultAssetTemplateByNetwork h (assetsStore state) network;
                newRawAccounts =
                  map (\<lambda>(i, a).
                        \<lparr>acc_address = add_address a,
                         acc_networkId = networkId,
                         acc_wallet = walletType,
                         acc_dPath = add_dPath a,
                         acc_assets =
                           [\<lparr>bal_uuid = asset_uuid newAsset, bal_balance = ''0'',
                             bal_mtime = Date_now h i\<rparr>],
                         acc_transactions = [],
                         acc_favorite = False,
                         acc_mtime = 0,
                         acc_uuid = generateDeterministicAddressUUID h networkId (add_address a)\<rparr>)
                    (enumerate 0 accountsToAdd)
            in if length newRawAccounts = 0 then (None, state)
               else
                 let newLabels =
                       findMultipleNextUnusedDefaultLabels h (acc_wallet (hd newRawAccounts))
                         (length newRawAccounts) (contacts state);
                     state1 = foldl (labelContact h networkId newLabels) state
                                (enumerate 0 newRawAccounts);
                     state2 = state1\<lparr>effects := effects state1 @
                                [CreateMultipleAccountsWithIDs newRawAccounts]\<rparr>
                 in (Some newRawAccounts, state2))"

section \<open>HD wallet slice: account discovery\<close>

text \<open>The data the test of the slice builds: derivation paths and derived accounts.\<close>

record ExtendedDPath =
  dpath_label :: string
  dpath_value :: string
  dpath_offset :: nat
  dpath_numOfAddresses :: nat

record PathItem =
  item_baseDPath :: ExtendedDPath
  item_path :: string
  item_index :: nat

record DWAccountDisplay =
  dw_address :: TAddress
  dw_pathItem :: PathItem
  dw_balance :: "string option"

text \<open>The actions of the slice that the two workers dispatch.\<close>

datatype hd_action =
  requestConnection
  | requestConnectionSuccess Asset Network
  | requestAddresses
  | enqueueAccounts "DWAccountDisplay list"
  | processAccountsQueue

text \<open>
  The functions the workers call, with their arguments: \<open>selectWallet(walletId)\<close>, the
  methods \<open>initialize\<close> and \<open>getMultipleAddresses\<close> of a session, and the \<open>setSession\<close>
  callback of the payload. \<open>'s\<close> is the type of sessions. A call is answered with nothing,
  with a session or with a list of derived accounts.
\<close>

datatype 's hd_call =
  selectWallet WalletId
  | initialize 's "ExtendedDPath option"
  | setSession 's
  | getMultipleAddresses 's "ExtendedDPath list"

datatype 's hd_result = Nothing | Session 's | Addresses "DWAccountDisplay list"

record connect_payload =
  connect_walletId :: WalletId
  connect_dpaths :: "ExtendedDPath list"
  connect_network :: Network
  connect_asset :: Asset

record 's accounts_payload =
  accounts_session :: 's
  accounts_dpaths :: "ExtendedDPath list"

text \<open>
  Modelled from the spec: \<open>requestConnectionWorker\<close> of \<open>hdWallet.slice.ts\<close>, which is not
  among the sources (only its test is). It selects the wallet implementation for the
  payload's \<open>walletId\<close>, initializes it with the first derivation path (\<open>dpaths[0]\<close>), passes
  the session to \<open>setSession\<close>, dispatches \<open>requestConnection\<close> and finally dispatches
  \<open>requestConnectionSuccess\<close> with the payload's asset and network. What the worker does
  when a call fails is not described and not modelled.
\<close>

definition requestConnectionWorker ::
  "connect_payload \<Rightarrow> ((hd_action, 's hd_call) saga_effect, 's hd_result) gen" where
  "requestConnectionWorker payload =
     Yield (Call (selectWallet (connect_walletId payload))) (\<lambda>r.
       case r of
         Session session \<Rightarrow>
           Yield (Call (initialize session (array_get (connect_dpaths payload) 0))) (\<lambda>_.
           Yield (Call (setSession session)) (\<lambda>_.
           Yield (Put requestConnection) (\<lambda>_.
           Yield (Put (requestConnectionSuccess (connect_asset payload) (connect_network payload)))
             (\<lambda>_. Done))))
       | _ \<Rightarrow> Done)"

text \<open>
  Modelled from the spec: \<open>getAccountsWorker\<close> of \<open>hdWallet.slice.ts\<close>, which is not among
  the sources (only its test is). It dispatches \<open>requestAddresses\<close>, calls the session's
  \<open>getMultipleAddresses\<close> with the payload's derivation paths, dispatches \<open>enqueueAccounts\<close>
  with the derived accounts and then dispatches \<open>processAccountsQueue\<close>, the action on which
  the queue worker fetches balances. What the worker does when the call fails is not
  described and not modelled.
\<close>

definition getAccountsWorker ::
  "'s accounts_payload \<Rightarrow> ((hd_action, 's hd_call) saga_effect, 's hd_result) gen" where
  "getAccountsWorker payload =
     Yield (Put requestAddresses) (\<lambda>_.
     Yield (Call (getMultipleAddresses (accounts_session payload) (accounts_dpaths payload))) (\<lambda>r.
       case r of
         Addresses dwaccounts \<Rightarrow>
           Yield (Put (enqueueAccounts dwaccounts)) (\<lambda>_.
           Yield (Put processAccountsQueue) (\<lambda>_. Done))
       | _ \<Rightarrow> Done))"

subsection \<open>The fixtures of the slice's test\<close>

definition fExtendedDPath :: ExtendedDPath where
  "fExtendedDPath =
     \<lparr>dpath_label = ''Ledger (ETH)'', dpath_value = ''m/44'/60'/0'' @ [CHR 0x27], dpath_offset = 0,
      dpath_numOfAddresses = 1\<rparr>"

text \<open>
  \<open>addressToTestWith\<close> is \<open>fAccount.address\<close> of the fixtures, which are not among the
  sources; the address for which the test's balance mock answers stands for it.
\<close>

definition addressToTestWith :: TAddress where
  "addressToTestWith = ''0xfE5443FaC29fA621cFc33D41D1927fd0f5E0bB7c''"

definition fDWAccountDisplayPreBalance :: DWAccountDisplay where
  "fDWAccountDisplayPreBalance =
     \<lparr>dw_address = addressToTestWith,
      dw_pathItem =
        \<lparr>item_baseDPath = fExtendedDPath, item_path = ''m/44'/60'/0'/0'', item_index = 0\<rparr>,
      dw_balance = None\<rparr>"

text \<open>
  \<open>ledgerMock\<close> and the mocked \<open>selectWallet\<close>: \<open>selectWallet\<close> resolves with the mock,
  \<open>getMultipleAddresses\<close> with \<open>[fDWAccountDisplayPreBalance]\<close>, \<open>initialize\<close> and the no-op
  \<open>setSession\<close> with nothing.
\<close>

datatype mock_session = ledgerMock

fun mock_env :: "(hd_action, mock_session hd_call) saga_effect \<Rightarrow> mock_session hd_result" where
  "mock_env (Call (selectWallet _)) = Session ledgerMock"
| "mock_env (Call (getMultipleAddresses _ _)) = Addresses [fDWAccountDisplayPreBalance]"
| "mock_env _ = Nothing"

text \<open>
  The assertions \<open>.put(...)\<close> and \<open>.call(...)\<close> of \<open>expectSaga\<close>: each expected effect is among
  the effects the saga yielded.
\<close>

definition expectSaga :: "'e list \<Rightarrow> 'e list \<Rightarrow> bool" where
  "expectSaga yielded expected = list_all (\<lambda>e. e \<in> set yielded) expected"

section \<open>Example values\<close>

text \<open>A store, hooks and accounts on which the functions of the provider are run.\<close>

definition example_account :: IAccount where
  "example_account =
     \<lparr>acc_address = ''0xA'', acc_networkId = ''Ethereum'', acc_wallet = Some LEDGER_NANO_S_NEW,
      acc_dPath = ''m/44'/60'/0'/0'', acc_assets = [], acc_transactions = [],
      acc_favorite = False, acc_mtime = 0, acc_uuid = ''uuid-A''\<rparr>"

definition example_store :: "unit Store" where
  "example_store =
     \<lparr>accounts = [], networks = [\<lparr>network_id = ''Ethereum''\<rparr>], assetsStore = [],
      contacts = [], dashboardAccounts = [''uuid-A'', ''uuid-B''],
      accountRestore = Map.empty, effects = []\<rparr>"

definition example_contact :: "string \<Rightarrow> TAddress \<Rightarrow> Contact" where
  "example_contact label addr =
     \<lparr>contact_label = Some label, contact_address = addr, contact_notes = ''n'',
      contact_network = ''Ethereum'', contact_uuid = ''contact-'' @ addr\<rparr>"

text \<open>
  With these hooks the network \<open>Ethereum\<close> is known, the address \<open>0xA\<close> has an account,
  \<open>0xB\<close> has a contact with the default label, \<open>0xC\<close> a contact with a label of its own, and
  \<open>0xD\<close> no contact.
\<close>

definition example_hooks :: hooks where
  "example_hooks =
     \<lparr>getNetworkById = (\<lambda>networkId nets. find (\<lambda>n. network_id n = networkId) nets),
      getAccountByAddressAndNetworkName =
        (\<lambda>addr networkId. if addr = ''0xA'' \<and> networkId = ''Ethereum''
                           then Some example_account else None),
      web3WalletId = Some (OtherWallet ''METAMASK''),
      getNewDefaultAssetTemplateByNetwork = (\<lambda>_ _. \<lparr>asset_uuid = ''ether''\<rparr>),
      Date_now = (\<lambda>i. 1000 + int i),
      generateDeterministicAddressUUID = (\<lambda>networkId addr. networkId @ ''-'' @ addr),
      findMultipleNextUnusedDefaultLabels =
        (\<lambda>_ n _. take n [''Ledger Account 1'', ''Ledger Account 2'', ''Ledger Account 3'']),
      getContactByAddressAndNetworkId =
        (\<lambda>addr networkId.
           if addr = ''0xB'' then Some (example_contact ''No Label'' addr)
           else if addr = ''0xC'' then Some (example_contact ''Savings'' addr)
           else None),
      translateRaw = (\<lambda>k. if k = ''NO_LABEL'' then ''No Label'' else k),
      generateUUID = (\<lambda>i. if i = 0 then ''u0'' else if i = 1 then ''u1'' else ''u2'')\<rparr>"

definition example_newAccounts :: "IAddAccount list" where
  "example_newAccounts =
     [\<lparr>add_address = ''0xA'', add_dPath = ''p0''\<rparr>,
      \<lparr>add_address = ''0xB'', add_dPath = ''p1''\<rparr>,
      \<lparr>add_address = ''0xC'', add_dPath = ''p2''\<rparr>,
      \<lparr>add_address = ''0xD'', add_dPath = ''p3''\<rparr>]"

text \<open>The raw accounts \<open>addMultipleAccounts\<close> builds from \<open>example_newAccounts\<close>.\<close>

definition example_rawAccount :: "nat \<Rightarrow> TAddress \<Rightarrow> string \<Rightarrow> IAccount" where
  "example_rawAccount i addr dpath =
     \<lparr>acc_address = addr, acc_networkId = ''Ethereum'', acc_wallet = Some LEDGER_NANO_S_NEW,
      acc_dPath = dpath,
      acc_assets = [\<lparr>bal_uuid = ''ether'', bal_balance = ''0'', bal_mtime = 1000 + int i\<rparr>],
      acc_transactions = [], acc_favorite = False, acc_mtime = 0,
      acc_uuid = ''Ethereum-'' @ addr\<rparr>"

definition example_rawAccounts :: "IAccount list" where
  "example_rawAccounts =
     [example_rawAccount 0 ''0xB'' ''p1'', example_rawAccount 1 ''0xC'' ''p2'',
      example_rawAccount 2 ''0xD'' ''p3'']"

section \<open>Properties of the rehydration saga\<close>

text \<open>
  C9: on every REHYDRATE action, \<open>handleRehydrateSuccess\<close> dispatches \<open>trackInit\<close>,
  \<open>fetchAssets\<close>, \<open>fetchMemberships\<close>, \<open>startRatesPolling\<close>, \<open>fetchHistory\<close>,
  \<open>startTxPolling\<close> and \<open>fetchENS\<close>, in that order, if and only if the action's key
  equals \<open>APP_PERSIST_CONFIG.key\<close>; for any other key it dispatches nothing.
\<close>

theorem handleRehydrateSuccess_effects:
  "(run env (handleRehydrateSuccess cfg action) =
      [Put trackInit, Put fetchAssets, Put fetchMemberships, Put startRatesPolling,
       Put fetchHistory, Put startTxPolling, Put fetchENS])
     = (rehydrate_key action = config_key cfg)
   \<and> (run env (handleRehydrateSuccess cfg action) = [])
     = (rehydrate_key action \<noteq> config_key cfg)"
  by (simp add: handleRehydrateSuccess_def)

section \<open>Properties of the persistence reducer\<close>

lemma persistenceReducer_dom:
  "dom (persistenceReducer slice_reducer initial_version state action) =
     set [''version'', ''accounts'', ''assets'', ''rates'', ''trackedAssets'', ''addressBook'',
          ''contracts'', ''networks'', ''notifications'', ''settings'', ''userActions'']"
  by (simp add: persistenceReducer_def combineReducers_def object_literal_def dom_def)
    (auto split: if_splits)

lemma SCHEMA_BASE_keys:
  "Object_keys (SCHEMA_BASE mtime_2020) =
     [''version'', ''mtime'', ''accounts'', ''addressBook'', ''assets'', ''rates'',
      ''trackedAssets'', ''contracts'', ''networks'', ''notifications'', ''settings'',
      ''networkNodes'', ''userActions'']"
  by (simp add: SCHEMA_BASE_def object_literal_def Object_keys_def)

text \<open>
  C8, as stated: the sub-states of the persisted state match the keys of \<open>SCHEMA_BASE\<close>.
  They do not: \<open>mtime\<close> is a key of \<open>SCHEMA_BASE\<close> and not a sub-state of the reducer, so the
  two sets of keys differ.
\<close>

theorem persistence_keys_counterexample:
  "''mtime'' \<in> set (Object_keys (SCHEMA_BASE 0))
   \<and> ''mtime'' \<notin> dom (persistenceReducer (\<lambda>_ _ _. ()) () Map.empty ())
   \<and> set (Object_keys (SCHEMA_BASE 0)) \<noteq> dom (persistenceReducer (\<lambda>_ _ _. ()) () Map.empty ())"
proof -
  have a: "''mtime'' \<in> set (Object_keys (SCHEMA_BASE 0))"
    unfolding SCHEMA_BASE_keys by simp
  have b: "''mtime'' \<notin> dom (persistenceReducer (\<lambda>_ _ _. ()) () Map.empty ())"
    unfolding persistenceReducer_dom by simp
  from a b show ?thesis by blast
qed

text \<open>
  C8, amended: the persisted state under the slice name \<open>database\<close> is composed of exactly
  the sub-states version, accounts, assets, rates, trackedAssets, addressBook, contracts,
  networks, notifications, settings and userActions. Each of them is a key of
  \<open>SCHEMA_BASE\<close>, whose version is \<open>v2.0.0\<close> and which has two more keys, \<open>mtime\<close> and
  \<open>networkNodes\<close>, that are not sub-states. For every previous state and every action the
  version sub-state of the next state is \<open>initialLegacyState.version\<close>.
\<close>

theorem persistenceReducer_substates:
  "persistence_slice_name = ''database''
   \<and> dom (persistenceReducer slice_reducer initial_version state action) =
       set [''version'', ''accounts'', ''assets'', ''rates'', ''trackedAssets'', ''addressBook'',
            ''contracts'', ''networks'', ''notifications'', ''settings'', ''userActions'']
   \<and> set (Object_keys (SCHEMA_BASE mtime_2020)) =
       dom (persistenceReducer slice_reducer initial_version state action)
         \<union> set [''mtime'', ''networkNodes'']
   \<and> ''mtime'' \<notin> dom (persistenceReducer slice_reducer initial_version state action)
   \<and> ''networkNodes'' \<notin> dom (persistenceReducer slice_reducer initial_version state action)
   \<and> map_of (SCHEMA_BASE mtime_2020) ''version'' = Some (Str ''v2.0.0'')
   \<and> persistenceReducer slice_reducer initial_version state action ''version''
       = Some initial_version"
proof -
  note d = persistenceReducer_dom [of slice_reducer initial_version state action]
  have u: "set (Object_keys (SCHEMA_BASE mtime_2020)) =
       dom (persistenceReducer slice_reducer initial_version state action)
         \<union> set [''mtime'', ''networkNodes'']"
    unfolding d SCHEMA_BASE_keys by (simp add: insert_commute)
  have m: "''mtime'' \<notin> dom (persistenceReducer slice_reducer initial_version state action)"
    unfolding d by simp
  have n: "''networkNodes'' \<notin> dom (persistenceReducer slice_reducer initial_version state action)"
    unfolding d by simp
  have v: "map_of (SCHEMA_BASE mtime_2020) ''version'' = Some (Str ''v2.0.0'')"
    by (simp add: SCHEMA_BASE_def object_literal_def)
  have r: "persistenceReducer slice_reducer initial_version state action ''version''
       = Some initial_version"
    by (simp add: persistenceReducer_def combineReducers_def object_literal_def)
  from d u m n v r show ?thesis by (simp add: persistence_slice_name_def)
qed

section \<open>Properties of the totals\<close>

text \<open>
  C5: for every selection of accounts (all accounts when no selection is given) and every
  rate function, \<open>assets\<close> is the concatenation of the asset lists of the selected accounts
  in order, \<open>totals\<close> lists the values of \<open>getTotalByAsset\<close> of those assets, and \<open>totalFiat\<close>
  is the sum, starting from \<open>bigify(0)\<close>, over the totals of the fiat conversion of each
  asset at its rate.
\<close>

theorem totalFiat_sum:
  "assets state selected
     = concat (map sa_assets (case selected of None \<Rightarrow> accounts state | Some xs \<Rightarrow> xs))
   \<and> totals ops state selected = map snd (getTotalByAsset ops (assets state selected))
   \<and> totalFiat ops state selected getAssetRate =
       foldl (\<lambda>sum a. big_plus ops sum
                (bigify ops (convertToFiatFromAsset ops a (getAssetRate a))))
         (bigify_0 ops) (totals ops state selected)"
  by (cases selected)
    (simp_all add: assets_def totals_def totalFiat_def or_default_def Object_values_def)

section \<open>Properties of the restore cache\<close>

text \<open>In every state of the provider, an account in the cache is stored under its own uuid.\<close>

lemma reachable_keys:
  "reachable state \<Longrightarrow> accountRestore state k = Some (Some a) \<Longrightarrow> acc_uuid a = k"
proof (induction arbitrary: k a rule: reachable.induct)
  case (initial state)
  then show ?case by simp
next
  case (deleted state account)
  then show ?case by (auto simp: deleteAccountFromCache_def split: if_splits)
next
  case (restored state accountId)
  then show ?case
    by (auto simp: restoreDeletedAccount_def Let_def isEmpty_def split: if_splits)
next
  case (rendered state state')
  then show ?case by simp
qed

text \<open>
  C6: \<open>restoreDeletedAccount(accountId)\<close> throws \<open>Unable to restore account! No account with
  id specified.\<close> exactly when the cache holds no account under \<open>accountId\<close>; then nothing is
  dispatched and the cache is unchanged. When the cache holds an account under \<open>accountId\<close>,
  \<open>addAccounts\<close> is dispatched with that single account and the entry is reset to
  \<open>undefined\<close>, so that a second restore of the same id throws.
\<close>

theorem restoreDeletedAccount_throws:
  "(fst (restoreDeletedAccount state accountId)
      = Threw ''Unable to restore account! No account with id specified.'')
     = (obj_get (accountRestore state) accountId = None)
   \<and> (obj_get (accountRestore state) accountId = None
        \<longrightarrow> snd (restoreDeletedAccount state accountId) = state)
   \<and> (\<forall>account. reachable state \<and> obj_get (accountRestore state) accountId = Some account \<longrightarrow>
         restoreDeletedAccount state accountId =
           (Returned (),
            state\<lparr>effects := effects state @ [Dispatch (addAccounts [account])],
                  accountRestore := (accountRestore state)(accountId \<mapsto> None)\<rparr>)
         \<and> fst (restoreDeletedAccount (snd (restoreDeletedAccount state accountId)) accountId)
             = Threw ''Unable to restore account! No account with id specified.'')"
proof (intro conjI allI impI)
  show "(fst (restoreDeletedAccount state accountId)
      = Threw ''Unable to restore account! No account with id specified.'')
     = (obj_get (accountRestore state) accountId = None)"
    by (simp add: restoreDeletedAccount_def Let_def isEmpty_def)
next
  assume "obj_get (accountRestore state) accountId = None"
  then show "snd (restoreDeletedAccount state accountId) = state"
    by (simp add: restoreDeletedAccount_def Let_def isEmpty_def)
next
  fix account
  assume h: "reachable state \<and> obj_get (accountRestore state) accountId = Some account"
  then have "accountRestore state accountId = Some (Some account)"
    by (auto simp: obj_get_def split: option.splits)
  with h have u: "acc_uuid account = accountId"
    using reachable_keys by blast
  from h u show r: "restoreDeletedAccount state accountId =
           (Returned (),
            state\<lparr>effects := effects state @ [Dispatch (addAccounts [account])],
                  accountRestore := (accountRestore state)(accountId \<mapsto> None)\<rparr>)"
    by (simp add: restoreDeletedAccount_def Let_def isEmpty_def)
  show "fst (restoreDeletedAccount (snd (restoreDeletedAccount state accountId)) accountId)
             = Threw ''Unable to restore account! No account with id specified.''"
    unfolding r by (simp add: restoreDeletedAccount_def Let_def isEmpty_def obj_get_def)
qed

theorem restoreDeletedAccount_throws_witness:
  "obj_get (accountRestore example_store) ''uuid-A'' = None
   \<and> snd (restoreDeletedAccount example_store ''uuid-A'') = example_store
   \<and> reachable (deleteAccountFromCache example_store example_account)
   \<and> obj_get (accountRestore (deleteAccountFromCache example_store example_account)) ''uuid-A''
       = Some example_account
   \<and> fst (restoreDeletedAccount (deleteAccountFromCache example_store example_account) ''uuid-A'')
       = Returned ()
   \<and> fst (restoreDeletedAccount
        (snd (restoreDeletedAccount (deleteAccountFromCache example_store example_account)
           ''uuid-A'')) ''uuid-A'')
       = Threw ''Unable to restore account! No account with id specified.''"
proof -
  have n: "obj_get (accountRestore example_store) ''uuid-A'' = None"
    by (simp add: example_store_def obj_get_def)
  have r: "reachable (deleteAccountFromCache example_store example_account)"
    by (rule reachable.deleted, rule reachable.initial) (simp add: example_store_def)
  have g: "obj_get (accountRestore (deleteAccountFromCache example_store example_account))
             ''uuid-A'' = Some example_account"
    by (simp add: deleteAccountFromCache_def obj_get_def example_account_def)
  from restoreDeletedAccount_throws [of example_store "''uuid-A''"] n
  have a: "snd (restoreDeletedAccount example_store ''uuid-A'') = example_store"
    by blast
  from restoreDeletedAccount_throws
    [of "deleteAccountFromCache example_store example_account" "''uuid-A''"] r g
  have b: "restoreDeletedAccount (deleteAccountFromCache example_store example_account) ''uuid-A''
      = (Returned (),
         (deleteAccountFromCache example_store example_account)
           \<lparr>effects := effects (deleteAccountFromCache example_store example_account)
                        @ [Dispatch (addAccounts [example_account])],
            accountRestore :=
              (accountRestore (deleteAccountFromCache example_store example_account))
                (''uuid-A'' \<mapsto> None)\<rparr>)
     \<and> fst (restoreDeletedAccount
        (snd (restoreDeletedAccount (deleteAccountFromCache example_store example_account)
           ''uuid-A'')) ''uuid-A'')
       = Threw ''Unable to restore account! No account with id specified.''"
    by blast
  from b have c: "fst (restoreDeletedAccount
      (deleteAccountFromCache example_store example_account) ''uuid-A'') = Returned ()"
    by simp
  from n a r g b c show ?thesis by blast
qed

text \<open>
  C7: delete-then-restore is a round trip. \<open>deleteAccountFromCache(account)\<close> stores the
  account in the cache under its uuid, calls \<open>deleteAccount\<close> on it, updates the dashboard
  accounts of the settings to the list without its uuid, and dispatches \<open>deleteMembership\<close>
  for its address and network; \<open>restoreDeletedAccount(account.uuid)\<close> on the resulting state
  dispatches \<open>addAccounts\<close> with exactly that account and clears the cache entry.
\<close>

theorem delete_restore_roundtrip:
  "accountRestore (deleteAccountFromCache state account)
      = (accountRestore state)(acc_uuid account \<mapsto> Some account)
   \<and> effects (deleteAccountFromCache state account)
      = effects state @
          [DeleteAccount account,
           UpdateSettingsAccounts (filter (\<lambda>u. u \<noteq> acc_uuid account) (dashboardAccounts state)),
           Dispatch (deleteMembership (acc_address account) (acc_networkId account))]
   \<and> acc_uuid account \<notin> set (filter (\<lambda>u. u \<noteq> acc_uuid account) (dashboardAccounts state))
   \<and> restoreDeletedAccount (deleteAccountFromCache state account) (acc_uuid account)
      = (Returned (),
         (deleteAccountFromCache state account)
           \<lparr>effects := effects (deleteAccountFromCache state account)
                         @ [Dispatch (addAccounts [account])],
            accountRestore :=
              (accountRestore (deleteAccountFromCache state account))(acc_uuid account \<mapsto> None)\<rparr>)
   \<and> obj_get (accountRestore (snd (restoreDeletedAccount
         (deleteAccountFromCache state account) (acc_uuid account)))) (acc_uuid account) = None"
  by (simp add: deleteAccountFromCache_def restoreDeletedAccount_def Let_def isEmpty_def obj_get_def)

section \<open>Properties of adding accounts\<close>

lemma foldl_labelContact:
  "foldl (labelContact h nid ls) st ps =
     st\<lparr>effects := effects st @
       concat (map (\<lambda>p.
         case getContactByAddressAndNetworkId h (acc_address (snd p)) nid of
           None \<Rightarrow>
             [CreateContact
                \<lparr>contact_label = array_get ls (fst p),
                 contact_address = acc_address (snd p),
                 contact_notes = '''',
                 contact_network = acc_networkId (snd p),
                 contact_uuid = generateUUID h (fst p)\<rparr>]
         | Some c \<Rightarrow>
             if contact_label c = Some (translateRaw h ''NO_LABEL'')
             then [UpdateContact (c\<lparr>contact_label := array_get ls (fst p)\<rparr>)]
             else []) ps)\<rparr>"
proof (induction ps arbitrary: st)
  case Nil
  show ?case by simp
next
  case (Cons p ps)
  show ?case
    by (simp add: Cons.IH) (simp add: labelContact_def Let_def split: option.splits)
qed

lemma enumerate_as_map: "enumerate 0 xs = map (\<lambda>i. (i, xs ! i)) [0..<length xs]"
  by (rule nth_equalityI) (simp_all add: nth_enumerate_eq)

lemma enumerate_eq_Nil: "(enumerate n xs = []) = (xs = [])"
  by (cases xs) simp_all

lemma map_enumerate_snd:
  "map g (map (\<lambda>(i, a). F i a) (enumerate n xs)) = map (\<lambda>a. G a) xs"
  if "\<And>i a. g (F i a) = G a"
proof -
  have "map g (map (\<lambda>(i, a). F i a) (enumerate n xs)) = map (G \<circ> snd) (enumerate n xs)"
    by (simp add: that case_prod_beta comp_def)
  also have "\<dots> = map G (map snd (enumerate n xs))" by (simp only: map_map)
  also have "\<dots> = map G xs" by (simp only: map_snd_enumerate)
  finally show ?thesis by simp
qed

lemma list_all_map_enumerate:
  "list_all P (map (\<lambda>(i, a). F i a) (enumerate n xs))" if "\<And>i a. P (F i a)"
  by (simp add: list_all_iff that case_prod_beta)

text \<open>What a call that returns accounts has computed.\<close>

lemma addMultipleAccounts_Some:
  assumes "fst (addMultipleAccounts h state nid wt newAccounts) = Some raws"
  shows "\<exists>network. getNetworkById h nid (networks state) = Some network \<and>
     raws = map (\<lambda>(i, a).
                  \<lparr>acc_address = add_address a,
                   acc_networkId = nid,
                   acc_wallet = (if wt = Some WEB3 then web3WalletId h else wt),
                   acc_dPath = add_dPath a,
                   acc_assets =
                     [\<lparr>bal_uuid = asset_uuid
                         (getNewDefaultAssetTemplateByNetwork h (assetsStore state) network),
                       bal_balance = ''0'', bal_mtime = Date_now h i\<rparr>],
                   acc_transactions = [],
                   acc_favorite = False,
                   acc_mtime = 0,
                   acc_uuid = generateDeterministicAddressUUID h nid (add_address a)\<rparr>)
              (enumerate 0
                 (filter (\<lambda>a. getAccountByAddressAndNetworkName h (add_address a) nid = None)
                    newAccounts))
     \<and> snd (addMultipleAccounts h state nid wt newAccounts) =
         (let state1 = foldl (labelContact h nid
                           (findMultipleNextUnusedDefaultLabels h (acc_wallet (hd raws))
                              (length raws) (contacts state)))
                         state (enumerate 0 raws)
          in state1\<lparr>effects := effects state1 @ [CreateMultipleAccountsWithIDs raws]\<rparr>)"
  using assms
  by (auto simp: addMultipleAccounts_def Let_def split: option.splits if_splits)

text \<open>
  C3: \<open>addMultipleAccounts(networkId, walletId, newAccounts)\<close> returns \<open>undefined\<close> exactly
  when \<open>networkId\<close> does not resolve to a network, \<open>newAccounts\<close> is empty, or every input
  address already has an account on that network. Otherwise it creates and returns raw
  accounts for exactly the input addresses without an account on the network, each with
  the uuid \<open>generateDeterministicAddressUUID(networkId, address)\<close>, a single asset with
  balance \<open>'0'\<close>, no transactions and \<open>favorite\<close> false.
\<close>

theorem addMultipleAccounts_result:
  "(fst (addMultipleAccounts h state nid wt newAccounts) = None)
     = (getNetworkById h nid (networks state) = None \<or> newAccounts = []
        \<or> list_all (\<lambda>a. getAccountByAddressAndNetworkName h (add_address a) nid \<noteq> None)
             newAccounts)
   \<and> (\<forall>raws. fst (addMultipleAccounts h state nid wt newAccounts) = Some raws \<longrightarrow>
         map acc_address raws
           = map add_address
               (filter (\<lambda>a. getAccountByAddressAndNetworkName h (add_address a) nid = None)
                  newAccounts)
         \<and> list_all (\<lambda>r. acc_uuid r = generateDeterministicAddressUUID h nid (acc_address r)
                         \<and> acc_networkId r = nid
                         \<and> length (acc_assets r) = 1
                         \<and> list_all (\<lambda>b. bal_balance b = ''0'') (acc_assets r)
                         \<and> acc_transactions r = []
                         \<and> acc_favorite r = False) raws
         \<and> last (effects (snd (addMultipleAccounts h state nid wt newAccounts)))
             = CreateMultipleAccountsWithIDs raws)"
proof (intro conjI allI impI)
  show "(fst (addMultipleAccounts h state nid wt newAccounts) = None)
     = (getNetworkById h nid (networks state) = None \<or> newAccounts = []
        \<or> list_all (\<lambda>a. getAccountByAddressAndNetworkName h (add_address a) nid \<noteq> None)
             newAccounts)"
    by (auto simp: addMultipleAccounts_def Let_def list_all_iff filter_empty_conv
        enumerate_eq_Nil split: option.splits)
next
  fix raws
  assume a: "fst (addMultipleAccounts h state nid wt newAccounts) = Some raws"
  from addMultipleAccounts_Some [OF a] obtain network where
    r: "raws = map (\<lambda>(i, a).
                  \<lparr>acc_address = add_address a,
                   acc_networkId = nid,
                   acc_wallet = (if wt = Some WEB3 then web3WalletId h else wt),
                   acc_dPath = add_dPath a,
                   acc_assets =
                     [\<lparr>bal_uuid = asset_uuid
                         (getNewDefaultAssetTemplateByNetwork h (assetsStore state) network),
                       bal_balance = ''0'', bal_mtime = Date_now h i\<rparr>],
                   acc_transactions = [],
                   acc_favorite = False,
                   acc_mtime = 0,
                   acc_uuid = generateDeterministicAddressUUID h nid (add_address a)\<rparr>)
              (enumerate 0
                 (filter (\<lambda>a. getAccountByAddressAndNetworkName h (add_address a) nid = None)
                    newAccounts))"
    and s: "snd (addMultipleAccounts h state nid wt newAccounts) =
         (let state1 = foldl (labelContact h nid
                           (findMultipleNextUnusedDefaultLabels h (acc_wallet (hd raws))
                              (length raws) (contacts state)))
                         state (enumerate 0 raws)
          in state1\<lparr>effects := effects state1 @ [CreateMultipleAccountsWithIDs raws]\<rparr>)"
    by blast
  show "map acc_address raws
           = map add_address
               (filter (\<lambda>a. getAccountByAddressAndNetworkName h (add_address a) nid = None)
                  newAccounts)"
    unfolding r by (rule map_enumerate_snd) simp
  show "list_all (\<lambda>r. acc_uuid r = generateDeterministicAddressUUID h nid (acc_address r)
                         \<and> acc_networkId r = nid
                         \<and> length (acc_assets r) = 1
                         \<and> list_all (\<lambda>b. bal_balance b = ''0'') (acc_assets r)
                         \<and> acc_transactions r = []
                         \<and> acc_favorite r = False) raws"
    unfolding r by (rule list_all_map_enumerate) simp
  show "last (effects (snd (addMultipleAccounts h state nid wt newAccounts)))
             = CreateMultipleAccountsWithIDs raws"
    unfolding s by (simp add: Let_def)
qed

lemma example_addMultipleAccounts:
  "fst (addMultipleAccounts example_hooks example_store ''Ethereum'' (Some LEDGER_NANO_S_NEW)
          example_newAccounts) = Some example_rawAccounts"
  by (simp add: addMultipleAccounts_def example_hooks_def example_store_def
      example_newAccounts_def example_rawAccounts_def example_rawAccount_def Let_def)

theorem addMultipleAccounts_result_witness:
  "fst (addMultipleAccounts example_hooks example_store ''Ropsten'' (Some LEDGER_NANO_S_NEW)
          example_newAccounts) = None
   \<and> fst (addMultipleAccounts example_hooks example_store ''Ethereum'' (Some LEDGER_NANO_S_NEW)
          example_newAccounts) = Some example_rawAccounts
   \<and> map acc_address example_rawAccounts = [''0xB'', ''0xC'', ''0xD'']
   \<and> list_all (\<lambda>r. acc_uuid r = ''Ethereum-'' @ acc_address r
                   \<and> length (acc_assets r) = 1
                   \<and> list_all (\<lambda>b. bal_balance b = ''0'') (acc_assets r)
                   \<and> acc_transactions r = []
                   \<and> acc_favorite r = False) example_rawAccounts
   \<and> last (effects (snd (addMultipleAccounts example_hooks example_store ''Ethereum''
              (Some LEDGER_NANO_S_NEW) example_newAccounts)))
       = CreateMultipleAccountsWithIDs example_rawAccounts"
proof -
  have n: "getNetworkById example_hooks ''Ropsten'' (networks example_store) = None"
    by (simp add: example_hooks_def example_store_def)
  from addMultipleAccounts_result
    [of example_hooks example_store "''Ropsten''" "Some LEDGER_NANO_S_NEW" example_newAccounts] n
  have a: "fst (addMultipleAccounts example_hooks example_store ''Ropsten''
                  (Some LEDGER_NANO_S_NEW) example_newAccounts) = None"
    by blast
  note e = example_addMultipleAccounts
  from addMultipleAccounts_result
    [of example_hooks example_store "''Ethereum''" "Some LEDGER_NANO_S_NEW" example_newAccounts] e
  have b: "map acc_address example_rawAccounts
           = map add_address
               (filter (\<lambda>a. getAccountByAddressAndNetworkName example_hooks (add_address a)
                              ''Ethereum'' = None) example_newAccounts)
         \<and> list_all (\<lambda>r. acc_uuid r
                           = generateDeterministicAddressUUID example_hooks ''Ethereum''
                               (acc_address r)
                         \<and> acc_networkId r = ''Ethereum''
                         \<and> length (acc_assets r) = 1
                         \<and> list_all (\<lambda>b. bal_balance b = ''0'') (acc_assets r)
                         \<and> acc_transactions r = []
                         \<and> acc_favorite r = False) example_rawAccounts
         \<and> last (effects (snd (addMultipleAccounts example_hooks example_store ''Ethereum''
              (Some LEDGER_NANO_S_NEW) example_newAccounts)))
             = CreateMultipleAccountsWithIDs example_rawAccounts"
    by blast
  from b have c: "map acc_address example_rawAccounts = [''0xB'', ''0xC'', ''0xD'']"
    by (simp add: example_hooks_def example_newAccounts_def)
  from b have d: "list_all (\<lambda>r. acc_uuid r = ''Ethereum-'' @ acc_address r
                   \<and> length (acc_assets r) = 1
                   \<and> list_all (\<lambda>b. bal_balance b = ''0'') (acc_assets r)
                   \<and> acc_transactions r = []
                   \<and> acc_favorite r = False) example_rawAccounts"
    by (simp add: example_hooks_def list_all_iff)
  from a e b c d show ?thesis by blast
qed

text \<open>
  C4: when \<open>addMultipleAccounts\<close> creates accounts, it maintains the address book account by
  account, in the order of the created accounts and before it stores them: where the
  contact found for the account's address and the network has the default label
  \<open>NO_LABEL\<close>, the contact is updated with the default label computed for the account;
  where no contact is found, a contact with that label, the account's address and network
  and empty notes is created; where the contact found has another label, nothing is done.
  The label computed for the account at index \<open>idx\<close> is entry \<open>idx\<close> of
  \<open>findMultipleNextUnusedDefaultLabels\<close> for the wallet, the number of created accounts and
  the current contacts.
\<close>

theorem addMultipleAccounts_contacts:
  assumes "addMultipleAccounts h state nid wt newAccounts = (Some raws, state')"
  shows "effects state' =
     effects state @
     concat (map (\<lambda>idx.
         case getContactByAddressAndNetworkId h (acc_address (raws ! idx)) nid of
           None \<Rightarrow>
             [CreateContact
                \<lparr>contact_label =
                   array_get (findMultipleNextUnusedDefaultLabels h (acc_wallet (hd raws))
                                (length raws) (contacts state)) idx,
                 contact_address = acc_address (raws ! idx),
                 contact_notes = '''',
                 contact_network = nid,
                 contact_uuid = generateUUID h idx\<rparr>]
         | Some c \<Rightarrow>
             if contact_label c = Some (translateRaw h ''NO_LABEL'')
             then [UpdateContact
                     (c\<lparr>contact_label :=
                          array_get (findMultipleNextUnusedDefaultLabels h (acc_wallet (hd raws))
                                       (length raws) (contacts state)) idx\<rparr>)]
             else []) [0..<length raws])
     @ [CreateMultipleAccountsWithIDs raws]"
proof -
  from assms have a: "fst (addMultipleAccounts h state nid wt newAccounts) = Some raws"
    and b: "state' = snd (addMultipleAccounts h state nid wt newAccounts)"
    by simp_all
  from addMultipleAccounts_Some [OF a] obtain network where
    r: "raws = map (\<lambda>(i, a).
                  \<lparr>acc_address = add_address a,
                   acc_networkId = nid,
                   acc_wallet = (if wt = Some WEB3 then web3WalletId h else wt),
                   acc_dPath = add_dPath a,
                   acc_assets =
                     [\<lparr>bal_uuid = asset_uuid
                         (getNewDefaultAssetTemplateByNetwork h (assetsStore state) network),
                       bal_balance = ''0'', bal_mtime = Date_now h i\<rparr>],
                   acc_transactions = [],
                   acc_favorite = False,
                   acc_mtime = 0,
                   acc_uuid = generateDeterministicAddressUUID h nid (add_address a)\<rparr>)
              (enumerate 0
                 (filter (\<lambda>a. getAccountByAddressAndNetworkName h (add_address a) nid = None)
                    newAccounts))"
    and s: "snd (addMultipleAccounts h state nid wt newAccounts) =
         (let state1 = foldl (labelContact h nid
                           (findMultipleNextUnusedDefaultLabels h (acc_wallet (hd raws))
                              (length raws) (contacts state)))
                         state (enumerate 0 raws)
          in state1\<lparr>effects := effects state1 @ [CreateMultipleAccountsWithIDs raws]\<rparr>)"
    by blast
  have "list_all (\<lambda>r. acc_networkId r = nid) raws"
    unfolding r by (rule list_all_map_enumerate) simp
  then have n: "\<And>i. i < length raws \<Longrightarrow> acc_networkId (raws ! i) = nid"
    by (simp add: list_all_length)
  show ?thesis
    unfolding b s Let_def foldl_labelContact
    by (simp add: enumerate_as_map comp_def)
      (intro arg_cong[where f=concat] map_cong refl, simp add: n split: option.splits)
qed

theorem addMultipleAccounts_contacts_witness:
  "fst (addMultipleAccounts example_hooks example_store ''Ethereum'' (Some LEDGER_NANO_S_NEW)
          example_newAccounts) = Some example_rawAccounts
   \<and> effects (snd (addMultipleAccounts example_hooks example_store ''Ethereum''
        (Some LEDGER_NANO_S_NEW) example_newAccounts)) =
       [UpdateContact
          \<lparr>contact_label = Some ''Ledger Account 1'', contact_address = ''0xB'',
           contact_notes = ''n'', contact_network = ''Ethereum'',
           contact_uuid = ''contact-0xB''\<rparr>,
        CreateContact
          \<lparr>contact_label = Some ''Ledger Account 3'', contact_address = ''0xD'',
           contact_notes = '''', contact_network = ''Ethereum'', contact_uuid = ''u2''\<rparr>,
        CreateMultipleAccountsWithIDs example_rawAccounts]"
proof -
  note e = example_addMultipleAccounts
  then have h: "addMultipleAccounts example_hooks example_store ''Ethereum''
        (Some LEDGER_NANO_S_NEW) example_newAccounts =
      (Some example_rawAccounts,
       snd (addMultipleAccounts example_hooks example_store ''Ethereum''
        (Some LEDGER_NANO_S_NEW) example_newAccounts))"
    by (simp add: prod_eq_iff)
  have l: "[0..<length example_rawAccounts] = [0, 1, 2]"
    by (simp add: example_rawAccounts_def upt_rec)
  have t: "effects (snd (addMultipleAccounts example_hooks example_store ''Ethereum''
        (Some LEDGER_NANO_S_NEW) example_newAccounts)) =
       [UpdateContact
          \<lparr>contact_label = Some ''Ledger Account 1'', contact_address = ''0xB'',
           contact_notes = ''n'', contact_network = ''Ethereum'',
           contact_uuid = ''contact-0xB''\<rparr>,
        CreateContact
          \<lparr>contact_label = Some ''Ledger Account 3'', contact_address = ''0xD'',
           contact_notes = '''', contact_network = ''Ethereum'', contact_uuid = ''u2''\<rparr>,
        CreateMultipleAccountsWithIDs example_rawAccounts]"
    unfolding addMultipleAccounts_contacts [OF h] l
    by (simp add: example_hooks_def example_store_def example_contact_def array_get_def)
      (simp add: example_rawAccounts_def example_rawAccount_def)
  from e t show ?thesis by blast
qed

section \<open>Properties of the account-discovery workers\<close>

text \<open>
  C1: for every session and list of extended derivation paths, \<open>getAccountsWorker\<close> first
  dispatches \<open>requestAddresses\<close>, then calls the session's \<open>getMultipleAddresses\<close> with
  exactly the given derivation paths, then dispatches \<open>enqueueAccounts\<close> with the derived
  accounts, and only then dispatches \<open>processAccountsQueue\<close>, which starts the fetching of
  balances: at no point of the run has \<open>processAccountsQueue\<close> been dispatched before the
  accounts were enqueued.
\<close>

theorem getAccountsWorker_order:
  assumes "env (Call (getMultipleAddresses session dpaths)) = Addresses dwaccounts"
  shows "run env (getAccountsWorker \<lparr>accounts_session = session, accounts_dpaths = dpaths\<rparr>) =
           [Put requestAddresses,
            Call (getMultipleAddresses session dpaths),
            Put (enqueueAccounts dwaccounts),
            Put processAccountsQueue]
         \<and> (\<forall>n. Put processAccountsQueue \<in> set (take n
                 (run env (getAccountsWorker
                    \<lparr>accounts_session = session, accounts_dpaths = dpaths\<rparr>)))
               \<longrightarrow> Put (enqueueAccounts dwaccounts) \<in> set (take n
                 (run env (getAccountsWorker
                    \<lparr>accounts_session = session, accounts_dpaths = dpaths\<rparr>))))"
proof -
  have t: "run env (getAccountsWorker \<lparr>accounts_session = session, accounts_dpaths = dpaths\<rparr>) =
           [Put requestAddresses,
            Call (getMultipleAddresses session dpaths),
            Put (enqueueAccounts dwaccounts),
            Put processAccountsQueue]"
    using assms by (simp add: getAccountsWorker_def)
  show ?thesis
    unfolding t by (auto simp: take_Cons' split: if_splits)
qed

theorem getAccountsWorker_order_witness:
  "mock_env (Call (getMultipleAddresses ledgerMock [fExtendedDPath]))
     = Addresses [fDWAccountDisplayPreBalance]
   \<and> run mock_env (getAccountsWorker
         \<lparr>accounts_session = ledgerMock, accounts_dpaths = [fExtendedDPath]\<rparr>) =
       [Put requestAddresses,
        Call (getMultipleAddresses ledgerMock [fExtendedDPath]),
        Put (enqueueAccounts [fDWAccountDisplayPreBalance]),
        Put processAccountsQueue]"
proof -
  have h: "mock_env (Call (getMultipleAddresses ledgerMock [fExtendedDPath]))
     = Addresses [fDWAccountDisplayPreBalance]"
    by simp
  from getAccountsWorker_order
    [of mock_env ledgerMock "[fExtendedDPath]" "[fDWAccountDisplayPreBalance]"] h
  show ?thesis by blast
qed

text \<open>The test of \<open>getAccountsWorker\<close> passes on the model.\<close>

lemma getAccountsWorker_test:
  "expectSaga
     (run mock_env (getAccountsWorker
        \<lparr>accounts_session = ledgerMock, accounts_dpaths = [fExtendedDPath]\<rparr>))
     [Put requestAddresses,
      Call (getMultipleAddresses ledgerMock [fExtendedDPath]),
      Put (enqueueAccounts [fDWAccountDisplayPreBalance]),
      Put processAccountsQueue]"
  by (simp add: expectSaga_def getAccountsWorker_def)

text \<open>
  C2: for every connection request with a \<open>walletId\<close>, derivation paths, network, asset and
  \<open>setSession\<close> callback, \<open>requestConnectionWorker\<close> selects the wallet implementation for
  the \<open>walletId\<close>, initializes it with the first derivation path, passes the session to
  \<open>setSession\<close>, dispatches \<open>requestConnection\<close>, and finally dispatches
  \<open>requestConnectionSuccess\<close> with exactly the requested asset and network.
\<close>

theorem requestConnectionWorker_effects:
  assumes "env (Call (selectWallet (connect_walletId payload))) = Session session"
  shows "run env (requestConnectionWorker payload) =
           [Call (selectWallet (connect_walletId payload)),
            Call (initialize session (array_get (connect_dpaths payload) 0)),
            Call (setSession session),
            Put requestConnection,
            Put (requestConnectionSuccess (connect_asset payload) (connect_network payload))]"
  using assms by (simp add: requestConnectionWorker_def)

theorem requestConnectionWorker_effects_witness:
  "mock_env (Call (selectWallet LEDGER_NANO_S_NEW)) = Session ledgerMock
   \<and> run mock_env (requestConnectionWorker
        \<lparr>connect_walletId = LEDGER_NANO_S_NEW, connect_dpaths = [fExtendedDPath],
         connect_network = \<lparr>network_id = ''Ethereum''\<rparr>,
         connect_asset = \<lparr>asset_uuid = ''ether''\<rparr>\<rparr>) =
       [Call (selectWallet LEDGER_NANO_S_NEW),
        Call (initialize ledgerMock (Some fExtendedDPath)),
        Call (setSession ledgerMock),
        Put requestConnection,
        Put (requestConnectionSuccess \<lparr>asset_uuid = ''ether''\<rparr> \<lparr>network_id = ''Ethereum''\<rparr>)]"
proof -
  have h: "mock_env (Call (selectWallet LEDGER_NANO_S_NEW)) = Session ledgerMock"
    by simp
  from requestConnectionWorker_effects [of mock_env
        "\<lparr>connect_walletId = LEDGER_NANO_S_NEW, connect_dpaths = [fExtendedDPath],
         connect_network = \<lparr>network_id = ''Ethereum''\<rparr>,
         connect_asset = \<lparr>asset_uuid = ''ether''\<rparr>\<rparr>" ledgerMock] h
  show ?thesis
    by (simp add: array_get_def)
qed

text \<open>The test of \<open>requestConnectionWorker\<close> passes on the model, whatever the fixtures are.\<close>

lemma requestConnectionWorker_test:
  "expectSaga
     (run mock_env (requestConnectionWorker
        \<lparr>connect_walletId = LEDGER_NANO_S_NEW, connect_dpaths = [fExtendedDPath],
         connect_network = fNetwork, connect_asset = fAsset\<rparr>))
     [Call (selectWallet LEDGER_NANO_S_NEW),
      Call (initialize ledgerMock (array_get [fExtendedDPath] 0)),
      Call (setSession ledgerMock),
      Put requestConnection,
      Put (requestConnectionSuccess fAsset fNetwork)]"
  by (simp add: expectSaga_def requestConnectionWorker_def)

end
